theory Spec2Isabelle
  imports Main "HOL-Library.Sublist"
begin

section \<open>Localized content resolution (src/utils/get-content.ts)\<close>

subsection \<open>Data\<close>

text \<open>
  The union type \<open>LocalizableCollection\<close> of the six collection names; \<open>collection_name\<close>
  gives the string literal each member stands for.
\<close>

datatype LocalizableCollection = Skills | Jobs | Achievements | Education | Favorites | Interests

fun collection_name :: "LocalizableCollection \<Rightarrow> string" where
  "collection_name Skills = ''skills''"
| "collection_name Jobs = ''jobs''"
| "collection_name Achievements = ''achievements''"
| "collection_name Education = ''education''"
| "collection_name Favorites = ''favorites''"
| "collection_name Interests = ''interests''"

text \<open>
  A content record as the resolver sees it: the collection it belongs to, its slug, and its
  content, which the resolver never inspects.
\<close>

record CollectionEntry =
  collection :: LocalizableCollection
  slug :: string
  body :: string

text \<open>The content store: the records the content layer has loaded, in loading order.\<close>

type_synonym ContentStore = "CollectionEntry list"

text \<open>The date-fns locale object; the resolver reads its \<open>code\<close> only.\<close>

record Locale =
  code :: string

text \<open>The slices of the global context that the modelled functions read.\<close>

record GlobalContext =
  locale' :: Locale
  dateFormat :: string

text \<open>The render handle; the rendering pipeline attaches the context to it before use.\<close>

record AstroGlobal =
  globalContext :: "GlobalContext option"

text \<open>
  What a call can throw: the configuration error of the context store, and a plain
  JavaScript \<open>Error\<close> or \<open>RangeError\<close> with its message. \<open>Unmodelled\<close> is not an
  error of the program: it marks a format token that the model of the formatting backend
  below does not cover.
\<close>

datatype error = ConfigurationError | Error string | RangeError string | Unmodelled string

text \<open>One call of \<open>getEntry\<close>: the collection and the slug asked for.\<close>

type_synonym lookup = "LocalizableCollection \<times> string"

subsection \<open>External collaborators\<close>

text \<open>
  Modelled from the spec: \<open>getGlobalContext\<close> (src/utils/get-global-context.ts is not among
  the sources). It returns the context attached to the render handle and fails with a
  configuration error when none has been attached.
\<close>

definition getGlobalContext :: "AstroGlobal \<Rightarrow> error + GlobalContext" where
  "getGlobalContext astro =
     (case globalContext astro of None \<Rightarrow> Inl ConfigurationError | Some context \<Rightarrow> Inr context)"

text \<open>
  Modelled from the spec: \<open>getEntry\<close> of the content layer (astro:content, with legacy
  slug-keyed collections as astro.config.ts sets them). It is queried by collection name and
  exact slug; absence is the value \<open>undefined\<close>, here \<open>None\<close>, not an error.
\<close>

definition getEntry :: "ContentStore \<Rightarrow> LocalizableCollection \<Rightarrow> string \<Rightarrow> CollectionEntry option" where
  "getEntry store c s = find (\<lambda>e. collection e = c \<and> slug e = s) store"

subsection \<open>getLocalizedEntry\<close>

text \<open>The double quote character of the error message.\<close>

definition dquote :: char where
  "dquote = CHR 0x22"

text \<open>
  Lines 41 to 50 of get-content.ts: the lookup of the base slug, reached either directly or
  after the localized lookup found nothing. The result comes with the lookups made.
\<close>

definition fallbackToBase ::
  "ContentStore \<Rightarrow> GlobalContext \<Rightarrow> LocalizableCollection \<Rightarrow> string \<Rightarrow> (error + CollectionEntry) \<times> lookup list" where
  "fallbackToBase store context c ident =
     (let baseSlug = ident in
      case getEntry store c baseSlug of
        None \<Rightarrow>
          (Inl (Error (''Content entry not found: collection='' @ [dquote] @ collection_name c @ [dquote]
                        @ '', id='' @ [dquote] @ ident @ [dquote]
                        @ '', locale='' @ [dquote] @ code (locale' context) @ [dquote])),
           [(c, baseSlug)])
      | Some baseEntry \<Rightarrow> (Inr baseEntry, [(c, baseSlug)]))"

text \<open>
  The generic resolver. It returns the entry or the error thrown, and the sequence of
  \<open>getEntry\<close> calls it made, in order.
\<close>

definition getLocalizedEntry ::
  "ContentStore \<Rightarrow> AstroGlobal \<Rightarrow> LocalizableCollection \<Rightarrow> string \<Rightarrow> (error + CollectionEntry) \<times> lookup list" where
  "getLocalizedEntry store astro c ident =
     (case getGlobalContext astro of
        Inl err \<Rightarrow> (Inl err, [])
      | Inr context \<Rightarrow>
          if code (locale' context) = ''es'' then
            (let localizedSlug = ident @ ''-es'' in
             case getEntry store c localizedSlug of
               Some esEntry \<Rightarrow> (Inr esEntry, [(c, localizedSlug)])
             | None \<Rightarrow>
                 (let (r, qs) = fallbackToBase store context c ident
                  in (r, (c, localizedSlug) # qs)))
          else fallbackToBase store context c ident)"

text \<open>The six exported operations, one per collection.\<close>

definition getLocalizedSkill :: "ContentStore \<Rightarrow> AstroGlobal \<Rightarrow> string \<Rightarrow> (error + CollectionEntry) \<times> lookup list" where
  "getLocalizedSkill store astro ident = getLocalizedEntry store astro Skills ident"

definition getLocalizedJob :: "ContentStore \<Rightarrow> AstroGlobal \<Rightarrow> string \<Rightarrow> (error + CollectionEntry) \<times> lookup list" where
  "getLocalizedJob store astro ident = getLocalizedEntry store astro Jobs ident"

definition getLocalizedAchievement :: "ContentStore \<Rightarrow> AstroGlobal \<Rightarrow> string \<Rightarrow> (error + CollectionEntry) \<times> lookup list" where
  "getLocalizedAchievement store astro ident = getLocalizedEntry store astro Achievements ident"

definition getLocalizedEducation :: "ContentStore \<Rightarrow> AstroGlobal \<Rightarrow> string \<Rightarrow> (error + CollectionEntry) \<times> lookup list" where
  "getLocalizedEducation store astro ident = getLocalizedEntry store astro Education ident"

definition getLocalizedFavorite :: "ContentStore \<Rightarrow> AstroGlobal \<Rightarrow> string \<Rightarrow> (error + CollectionEntry) \<times> lookup list" where
  "getLocalizedFavorite store astro ident = getLocalizedEntry store astro Favorites ident"

definition getLocalizedInterest :: "ContentStore \<Rightarrow> AstroGlobal \<Rightarrow> string \<Rightarrow> (error + CollectionEntry) \<times> lookup list" where
  "getLocalizedInterest store astro ident = getLocalizedEntry store astro Interests ident"

text \<open>A render handle whose context has the given locale code and date pattern.\<close>

definition astroWith :: "string \<Rightarrow> string \<Rightarrow> AstroGlobal" where
  "astroWith lc pat = \<lparr>globalContext = Some \<lparr>locale' = \<lparr>code = lc\<rparr>, dateFormat = pat\<rparr>\<rparr>"


section \<open>Date formatting (src/utils/format-date.ts, here src/unnamed/part_006)\<close>

subsection \<open>ECMAScript time values and the Date algorithms the code calls\<close>

text \<open>
  A JavaScript number as the Date methods produce it: an integer, or \<open>NaN\<close> for an invalid
  date. All the arithmetic below stays far under \<open>2 ^ 53\<close>, where doubles are exact.
\<close>

datatype number = NaN | Num int

text \<open>Strict equality \<open>===\<close> on numbers: \<open>NaN\<close> equals nothing, itself included.\<close>

definition strictEq :: "number \<Rightarrow> number \<Rightarrow> bool" where
  "strictEq a b = (case (a, b) of (Num x, Num y) \<Rightarrow> x = y | _ \<Rightarrow> False)"

definition msPerSecond :: int where "msPerSecond = 1000"
definition msPerMinute :: int where "msPerMinute = 60000"
definition msPerHour :: int where "msPerHour = 3600000"
definition msPerDay :: int where "msPerDay = 86400000"

definition Day :: "int \<Rightarrow> int" where
  "Day t = t div msPerDay"

definition TimeWithinDay :: "int \<Rightarrow> int" where
  "TimeWithinDay t = t mod msPerDay"

definition DaysInYear :: "int \<Rightarrow> int" where
  "DaysInYear y =
     (if y mod 4 \<noteq> 0 then 365 else if y mod 100 \<noteq> 0 then 366 else if y mod 400 \<noteq> 0 then 365 else 366)"

definition DayFromYear :: "int \<Rightarrow> int" where
  "DayFromYear y = 365 * (y - 1970) + (y - 1969) div 4 - (y - 1901) div 100 + (y - 1601) div 400"

text \<open>
  \<open>YearFromTime t\<close> is the largest year whose first day is not after \<open>t\<close>. It is computed
  from an estimate by the mean length of the Gregorian year (146097 days in 400 years),
  which is off by at most one; lemma \<open>YearFromTime_bounds\<close> proves the characterisation.
\<close>

definition YearFromTime :: "int \<Rightarrow> int" where
  "YearFromTime t =
     (let d = Day t; e = 1970 + (400 * d) div 146097
      in if d < DayFromYear e then e - 1 else if DayFromYear (e + 1) \<le> d then e + 1 else e)"

definition InLeapYear :: "int \<Rightarrow> int" where
  "InLeapYear t = (if DaysInYear (YearFromTime t) = 366 then 1 else 0)"

definition DayWithinYear :: "int \<Rightarrow> int" where
  "DayWithinYear t = Day t - DayFromYear (YearFromTime t)"

text \<open>The day within the year on which month \<open>m\<close> (0 to 11) begins; \<open>l\<close> is 1 in a leap year.\<close>

definition DaysBeforeMonth :: "int \<Rightarrow> int \<Rightarrow> int" where
  "DaysBeforeMonth m l =
     (if m = 0 then 0 else if m = 1 then 31 else if m = 2 then 59 + l else if m = 3 then 90 + l
      else if m = 4 then 120 + l else if m = 5 then 151 + l else if m = 6 then 181 + l
      else if m = 7 then 212 + l else if m = 8 then 243 + l else if m = 9 then 273 + l
      else if m = 10 then 304 + l else 334 + l)"

definition MonthFromTime :: "int \<Rightarrow> int" where
  "MonthFromTime t =
     (let d = DayWithinYear t; l = InLeapYear t
      in if d < 31 then 0 else if d < 59 + l then 1 else if d < 90 + l then 2
         else if d < 120 + l then 3 else if d < 151 + l then 4 else if d < 181 + l then 5
         else if d < 212 + l then 6 else if d < 243 + l then 7 else if d < 273 + l then 8
         else if d < 304 + l then 9 else if d < 334 + l then 10 else 11)"

definition DateFromTime :: "int \<Rightarrow> int" where
  "DateFromTime t = DayWithinYear t - DaysBeforeMonth (MonthFromTime t) (InLeapYear t) + 1"

definition HourFromTime :: "int \<Rightarrow> int" where
  "HourFromTime t = (t div msPerHour) mod 24"

definition MinFromTime :: "int \<Rightarrow> int" where
  "MinFromTime t = (t div msPerMinute) mod 60"

definition SecFromTime :: "int \<Rightarrow> int" where
  "SecFromTime t = (t div msPerSecond) mod 60"

definition msFromTime :: "int \<Rightarrow> int" where
  "msFromTime t = t mod msPerSecond"

definition MakeTime :: "int \<Rightarrow> int \<Rightarrow> int \<Rightarrow> int \<Rightarrow> int" where
  "MakeTime hour minute sec ms = hour * msPerHour + minute * msPerMinute + sec * msPerSecond + ms"

text \<open>
  \<open>MakeDay\<close>: the day number of the first of month \<open>mn\<close> of year \<open>ym\<close>, plus \<open>date - 1\<close>;
  a month outside 0 to 11 carries into the year, a date outside the month rolls over.
\<close>

definition MakeDay :: "int \<Rightarrow> int \<Rightarrow> int \<Rightarrow> int" where
  "MakeDay year month date =
     (let ym = year + month div 12; mn = month mod 12
      in DayFromYear ym + DaysBeforeMonth mn (if DaysInYear ym = 366 then 1 else 0) + date - 1)"

definition MakeDate :: "int \<Rightarrow> int \<Rightarrow> int" where
  "MakeDate day time = day * msPerDay + time"

text \<open>The year mapping of the Date constructor: a year from 0 to 99 means 1900 plus it.\<close>

definition MakeFullYear :: "int \<Rightarrow> int" where
  "MakeFullYear year = (if 0 \<le> year \<and> year \<le> 99 then 1900 + year else year)"

definition TimeClip :: "int \<Rightarrow> number" where
  "TimeClip time = (if \<bar>time\<bar> > 8640000000000000 then NaN else Num time)"

text \<open>
  The host time zone, as ECMAScript's \<open>LocalTZA (t, isUTC)\<close>: the offset of local time from
  UTC in milliseconds, at the UTC time \<open>t\<close> when \<open>isUTC\<close> holds and at the local time
  \<open>t\<close> otherwise. \<open>fixedOffset\<close> is a zone whose offset never changes.
\<close>

type_synonym LocalTZA = "int \<Rightarrow> bool \<Rightarrow> int"

definition fixedOffset :: "int \<Rightarrow> LocalTZA" where
  "fixedOffset off = (\<lambda>t isUTC. off)"

definition LocalTime :: "LocalTZA \<Rightarrow> int \<Rightarrow> int" where
  "LocalTime tza t = t + tza t True"

definition UTC :: "LocalTZA \<Rightarrow> int \<Rightarrow> int" where
  "UTC tza t = t - tza t False"

text \<open>The time value that \<open>new Date(year, month, date)\<close> gives the new object.\<close>

definition DateFromFields :: "LocalTZA \<Rightarrow> number \<Rightarrow> number \<Rightarrow> number \<Rightarrow> number" where
  "DateFromFields tza year month date =
     (case (year, month, date) of
        (Num y, Num m, Num dt) \<Rightarrow>
          TimeClip (UTC tza (MakeDate (MakeDay (MakeFullYear y) m dt) (MakeTime 0 0 0 0)))
      | _ \<Rightarrow> NaN)"

subsection \<open>Date objects\<close>

text \<open>
  Date objects are mutable and passed by reference, so they live in a heap: \<open>DateValue\<close>
  maps a reference to the time value of its object, \<open>nextRef\<close> is the next free reference.
  \<open>newDate\<close> allocates an object; the getters read one.
\<close>

record heap =
  DateValue :: "nat \<Rightarrow> number"
  nextRef :: nat

definition newDate :: "heap \<Rightarrow> number \<Rightarrow> nat \<times> heap" where
  "newDate h tv = (nextRef h, h\<lparr>DateValue := (DateValue h)(nextRef h := tv), nextRef := Suc (nextRef h)\<rparr>)"

definition getUTCFullYear :: "heap \<Rightarrow> nat \<Rightarrow> number" where
  "getUTCFullYear h date = (case DateValue h date of NaN \<Rightarrow> NaN | Num t \<Rightarrow> Num (YearFromTime t))"

definition getUTCMonth :: "heap \<Rightarrow> nat \<Rightarrow> number" where
  "getUTCMonth h date = (case DateValue h date of NaN \<Rightarrow> NaN | Num t \<Rightarrow> Num (MonthFromTime t))"

definition getUTCDate :: "heap \<Rightarrow> nat \<Rightarrow> number" where
  "getUTCDate h date = (case DateValue h date of NaN \<Rightarrow> NaN | Num t \<Rightarrow> Num (DateFromTime t))"

definition getUTCHours :: "heap \<Rightarrow> nat \<Rightarrow> number" where
  "getUTCHours h date = (case DateValue h date of NaN \<Rightarrow> NaN | Num t \<Rightarrow> Num (HourFromTime t))"

definition getUTCMinutes :: "heap \<Rightarrow> nat \<Rightarrow> number" where
  "getUTCMinutes h date = (case DateValue h date of NaN \<Rightarrow> NaN | Num t \<Rightarrow> Num (MinFromTime t))"

definition getUTCSeconds :: "heap \<Rightarrow> nat \<Rightarrow> number" where
  "getUTCSeconds h date = (case DateValue h date of NaN \<Rightarrow> NaN | Num t \<Rightarrow> Num (SecFromTime t))"

definition getUTCMilliseconds :: "heap \<Rightarrow> nat \<Rightarrow> number" where
  "getUTCMilliseconds h date = (case DateValue h date of NaN \<Rightarrow> NaN | Num t \<Rightarrow> Num (msFromTime t))"

subsection \<open>The functions of format-date.ts\<close>

definition isMidnightUtc :: "heap \<Rightarrow> nat \<Rightarrow> bool" where
  "isMidnightUtc h date =
     (strictEq (getUTCHours h date) (Num 0) \<and>
      strictEq (getUTCMinutes h date) (Num 0) \<and>
      strictEq (getUTCSeconds h date) (Num 0) \<and>
      strictEq (getUTCMilliseconds h date) (Num 0))"

text \<open>Returns the reference of the date to format, and the heap after the call.\<close>

definition normalizeDateOnlyToLocal :: "LocalTZA \<Rightarrow> heap \<Rightarrow> nat \<Rightarrow> nat \<times> heap" where
  "normalizeDateOnlyToLocal tza h date =
     (if \<not> isMidnightUtc h date then (date, h)
      else newDate h (DateFromFields tza (getUTCFullYear h date) (getUTCMonth h date) (getUTCDate h date)))"

text \<open>
  The formatting backend (\<open>format\<close> of date-fns) is external. It is a parameter here: a
  function of the host zone, the time value of the date it is given, the pattern and the
  locale, that returns the string or the error thrown. It reads its date and does not write it.
\<close>

type_synonym formatter = "LocalTZA \<Rightarrow> number \<Rightarrow> string \<Rightarrow> Locale \<Rightarrow> error + string"

definition formatDate :: "LocalTZA \<Rightarrow> formatter \<Rightarrow> heap \<Rightarrow> nat \<Rightarrow> AstroGlobal \<Rightarrow> (error + string) \<times> heap" where
  "formatDate tza fmt h date astro =
     (case getGlobalContext astro of
        Inl err \<Rightarrow> (Inl err, h)
      | Inr context \<Rightarrow>
          (let (d, h') = normalizeDateOnlyToLocal tza h date
           in (fmt tza (DateValue h' d) (dateFormat context) (locale' context), h')))"

subsection \<open>The numeric tokens of the date-fns formatter\<close>

text \<open>
  A formatter for the claims that name a concrete output string. It renders what date-fns'
  \<open>format\<close> renders for the tokens \<open>y\<close>, \<open>yy\<close>, \<open>yyyy\<close> (any run of \<open>y\<close>), \<open>M\<close>, \<open>MM\<close>
  and \<open>d\<close>, \<open>dd\<close> (any run of \<open>d\<close>) and for characters that are neither letters nor the
  quote: the fields of the date in local time, zero-padded to the length of the token, and
  the other characters as they are. An invalid date is a \<open>RangeError\<close>, as in date-fns.
  Every other letter, and the quote that starts an escape, is outside this model.
\<close>

definition isLatinLetter :: "char \<Rightarrow> bool" where
  "isLatinLetter c = (c \<in> set ''abcdefghijklmnopqrstuvwxyzABCDEFGHIJKLMNOPQRSTUVWXYZ'')"

definition digitChar :: "nat \<Rightarrow> char" where
  "digitChar n = ''0123456789'' ! (n mod 10)"

fun decimal :: "nat \<Rightarrow> string" where
  "decimal n = (if n < 10 then [digitChar n] else decimal (n div 10) @ [digitChar n])"

definition addLeadingZeros :: "int \<Rightarrow> nat \<Rightarrow> string" where
  "addLeadingZeros number targetLength =
     (let sign = (if number < 0 then [CHR ''-''] else []); output = decimal (nat \<bar>number\<bar>)
      in sign @ replicate (targetLength - length output) (CHR ''0'') @ output)"

text \<open>The pattern cut into tokens: a maximal run of one letter, or a single other character.\<close>

fun tokens :: "string \<Rightarrow> (char \<times> nat) list" where
  "tokens [] = []"
| "tokens (c # cs) =
     (case tokens cs of
        [] \<Rightarrow> [(c, 1)]
      | (c', n) # ts \<Rightarrow> if c' = c \<and> isLatinLetter c then (c, Suc n) # ts else (c, 1) # (c', n) # ts)"

definition formatToken :: "int \<Rightarrow> char \<times> nat \<Rightarrow> error + string" where
  "formatToken lt tk =
     (case tk of (c, n) \<Rightarrow>
        if c = CHR ''y'' then
          (let signedYear = YearFromTime lt;
               year = (if signedYear > 0 then signedYear else 1 - signedYear)
           in Inr (addLeadingZeros (if n = 2 then year mod 100 else year) n))
        else if c = CHR ''M'' \<and> n = 1 then Inr (decimal (nat (MonthFromTime lt + 1)))
        else if c = CHR ''M'' \<and> n = 2 then Inr (addLeadingZeros (MonthFromTime lt + 1) 2)
        else if c = CHR ''d'' then Inr (addLeadingZeros (DateFromTime lt) n)
        else if isLatinLetter c \<or> c = CHR 0x27 then Inl (Unmodelled (replicate n c))
        else Inr (replicate n c))"

fun formatTokens :: "int \<Rightarrow> (char \<times> nat) list \<Rightarrow> error + string" where
  "formatTokens lt [] = Inr []"
| "formatTokens lt (tk # tks) =
     (case formatToken lt tk of
        Inl e \<Rightarrow> Inl e
      | Inr s \<Rightarrow> (case formatTokens lt tks of Inl e \<Rightarrow> Inl e | Inr r \<Rightarrow> Inr (s @ r)))"

definition formatNumeric :: formatter where
  "formatNumeric tza tv pat loc =
     (case tv of
        NaN \<Rightarrow> Inl (RangeError ''Invalid time value'')
      | Num t \<Rightarrow> formatTokens (LocalTime tza t) (tokens pat))"

section \<open>Concrete inputs\<close>

text \<open>Content stores of the scenarios of the specification.\<close>

definition skillsStore :: ContentStore where
  "skillsStore =
     [\<lparr>collection = Skills, slug = ''typescript'', body = ''TypeScript''\<rparr>,
      \<lparr>collection = Skills, slug = ''typescript-es'', body = ''TypeScript (es)''\<rparr>]"

definition jobsStore :: ContentStore where
  "jobsStore = [\<lparr>collection = Jobs, slug = ''senior-developer'', body = ''Senior Developer''\<rparr>]"

definition orphanStore :: ContentStore where
  "orphanStore = [\<lparr>collection = Skills, slug = ''typescript-es'', body = ''TypeScript (es)''\<rparr>]"

text \<open>A heap that holds one Date object, at reference 0, with the given time value.\<close>

definition heapOf :: "number \<Rightarrow> heap" where
  "heapOf tv = \<lparr>DateValue = (\<lambda>r. NaN)(0 := tv), nextRef = 1\<rparr>"

section \<open>Properties of the content resolver\<close>

subsection \<open>The store and the context\<close>

lemma getEntry_Some:
  "getEntry store c s = Some e \<Longrightarrow> e \<in> set store \<and> collection e = c \<and> slug e = s"
  by (auto simp: getEntry_def find_Some_iff)

lemma getEntry_None_iff:
  "getEntry store c s = None \<longleftrightarrow> \<not> (\<exists>e \<in> set store. collection e = c \<and> slug e = s)"
  by (auto simp: getEntry_def find_None_iff)

lemma getGlobalContext_Some:
  "globalContext astro = Some context \<Longrightarrow> getGlobalContext astro = Inr context"
  by (simp add: getGlobalContext_def)

lemma astroWith_context:
  "globalContext (astroWith lc pat) = Some \<lparr>locale' = \<lparr>code = lc\<rparr>, dateFormat = pat\<rparr>"
  by (simp add: astroWith_def)

lemma skillsStore_es:
  "getEntry skillsStore Skills (''typescript'' @ ''-es'')
     = Some \<lparr>collection = Skills, slug = ''typescript-es'', body = ''TypeScript (es)''\<rparr>"
  by (simp add: getEntry_def skillsStore_def)

lemma skillsStore_base:
  "getEntry skillsStore Skills ''typescript''
     = Some \<lparr>collection = Skills, slug = ''typescript'', body = ''TypeScript''\<rparr>"
  by (simp add: getEntry_def skillsStore_def)

lemma jobsStore_base:
  "getEntry jobsStore Jobs ''senior-developer''
     = Some \<lparr>collection = Jobs, slug = ''senior-developer'', body = ''Senior Developer''\<rparr>"
  by (simp add: getEntry_def jobsStore_def)

lemma jobsStore_es: "getEntry jobsStore Jobs (''senior-developer'' @ ''-es'') = None"
  by (simp add: getEntry_def jobsStore_def)

lemma orphanStore_base: "getEntry orphanStore Skills ''typescript'' = None"
  by (simp add: getEntry_def orphanStore_def)

lemma orphanStore_es:
  "getEntry orphanStore Skills (''typescript'' @ ''-es'')
     = Some \<lparr>collection = Skills, slug = ''typescript-es'', body = ''TypeScript (es)''\<rparr>"
  by (simp add: getEntry_def orphanStore_def)

lemma emptyStore_lookup: "getEntry [] c s = None"
  by (simp add: getEntry_def)

subsection \<open>Override, fallback and failure\<close>

text \<open>
  C1. Under the locale code \<open>es\<close>, when the store answers the slug \<open>id-es\<close> with an entry,
  \<open>getLocalizedEntry\<close> returns that entry, whose slug is \<open>id-es\<close>. Under any other locale
  code (the primary locale), when the store answers the slug \<open>id\<close> with an entry, it returns
  that entry, whose slug is \<open>id\<close>.
\<close>

theorem getLocalizedEntry_override:
  "globalContext astro = Some context \<Longrightarrow>
   (code (locale' context) = ''es'' \<and> getEntry store c (ident @ ''-es'') = Some esEntry
      \<longrightarrow> fst (getLocalizedEntry store astro c ident) = Inr esEntry \<and> slug esEntry = ident @ ''-es'') \<and>
   (code (locale' context) \<noteq> ''es'' \<and> getEntry store c ident = Some baseEntry
      \<longrightarrow> fst (getLocalizedEntry store astro c ident) = Inr baseEntry \<and> slug baseEntry = ident)"
  by (auto simp: getLocalizedEntry_def fallbackToBase_def getGlobalContext_Some dest: getEntry_Some)

theorem getLocalizedEntry_override_witness:
  "fst (getLocalizedEntry skillsStore (astroWith ''es'' ''dd/MM/yyyy'') Skills ''typescript'')
     = Inr \<lparr>collection = Skills, slug = ''typescript-es'', body = ''TypeScript (es)''\<rparr> \<and>
   fst (getLocalizedEntry skillsStore (astroWith ''en-US'' ''dd/MM/yyyy'') Skills ''typescript'')
     = Inr \<lparr>collection = Skills, slug = ''typescript'', body = ''TypeScript''\<rparr>"
proof -
  have es: "code (locale' \<lparr>locale' = \<lparr>code = ''es''\<rparr>, dateFormat = ''dd/MM/yyyy''\<rparr>) = ''es''"
    by simp
  have en: "code (locale' \<lparr>locale' = \<lparr>code = ''en-US''\<rparr>, dateFormat = ''dd/MM/yyyy''\<rparr>) \<noteq> ''es''"
    by simp
  from getLocalizedEntry_override [OF astroWith_context, THEN conjunct1, rule_format, OF conjI, OF es skillsStore_es]
       getLocalizedEntry_override [OF astroWith_context, THEN conjunct2, rule_format, OF conjI, OF en skillsStore_base]
  show ?thesis by blast
qed

text \<open>
  C2. When the store answers the slug \<open>id\<close> with an entry and has nothing under \<open>id-es\<close>,
  \<open>getLocalizedEntry\<close> returns the base entry, and no error, whatever the locale of the
  context: under \<open>es\<close> as under the primary locale.
\<close>

theorem getLocalizedEntry_fallback:
  "globalContext astro = Some context \<Longrightarrow>
   getEntry store c ident = Some baseEntry \<Longrightarrow>
   getEntry store c (ident @ ''-es'') = None \<Longrightarrow>
   fst (getLocalizedEntry store astro c ident) = Inr baseEntry \<and> slug baseEntry = ident"
  by (auto simp: getLocalizedEntry_def fallbackToBase_def getGlobalContext_Some dest: getEntry_Some)

theorem getLocalizedEntry_fallback_witness:
  "fst (getLocalizedEntry jobsStore (astroWith ''es'' ''dd/MM/yyyy'') Jobs ''senior-developer'')
     = Inr \<lparr>collection = Jobs, slug = ''senior-developer'', body = ''Senior Developer''\<rparr> \<and>
   fst (getLocalizedEntry jobsStore (astroWith ''en-US'' ''dd/MM/yyyy'') Jobs ''senior-developer'')
     = Inr \<lparr>collection = Jobs, slug = ''senior-developer'', body = ''Senior Developer''\<rparr>"
  using getLocalizedEntry_fallback [OF astroWith_context jobsStore_base jobsStore_es, of "''es''" "''dd/MM/yyyy''"]
        getLocalizedEntry_fallback [OF astroWith_context jobsStore_base jobsStore_es, of "''en-US''" "''dd/MM/yyyy''"]
  by blast

text \<open>
  C3. When the store has nothing under \<open>id\<close> and nothing under \<open>id-es\<close>, \<open>getLocalizedEntry\<close>
  throws, under every locale, the error whose message spells out the name of the collection,
  the identifier asked for and the locale code of the context.
\<close>

theorem getLocalizedEntry_not_found:
  "globalContext astro = Some context \<Longrightarrow>
   getEntry store c ident = None \<Longrightarrow>
   getEntry store c (ident @ ''-es'') = None \<Longrightarrow>
   fst (getLocalizedEntry store astro c ident) =
     Inl (Error (''Content entry not found: collection='' @ [CHR 0x22] @ collection_name c @ [CHR 0x22]
                  @ '', id='' @ [CHR 0x22] @ ident @ [CHR 0x22]
                  @ '', locale='' @ [CHR 0x22] @ code (locale' context) @ [CHR 0x22]))"
  by (simp add: getLocalizedEntry_def fallbackToBase_def getGlobalContext_Some dquote_def)

theorem getLocalizedEntry_not_found_witness:
  "fst (getLocalizedEntry [] (astroWith ''es'' ''dd/MM/yyyy'') Jobs ''cto'') =
     Inl (Error (''Content entry not found: collection='' @ [CHR 0x22] @ ''jobs'' @ [CHR 0x22]
                  @ '', id='' @ [CHR 0x22] @ ''cto'' @ [CHR 0x22]
                  @ '', locale='' @ [CHR 0x22] @ ''es'' @ [CHR 0x22]))"
  using getLocalizedEntry_not_found [OF astroWith_context emptyStore_lookup emptyStore_lookup,
          of "''es''" "''dd/MM/yyyy''" Jobs "''cto''"]
  by simp

text \<open>
  C6. Whenever \<open>getLocalizedEntry\<close> returns a record, the slug of the record starts with the
  identifier asked for: it is the identifier or the identifier followed by \<open>-es\<close>. The
  record is one of the store, in the collection asked for; none is made up.
\<close>

theorem getLocalizedEntry_slug_prefix:
  "fst (getLocalizedEntry store astro c ident) = Inr e \<Longrightarrow>
   prefix ident (slug e) \<and> (slug e = ident \<or> slug e = ident @ ''-es'') \<and>
   e \<in> set store \<and> collection e = c"
  by (auto simp: getLocalizedEntry_def fallbackToBase_def getGlobalContext_def Let_def
           split: option.splits if_splits dest: getEntry_Some)

lemma skills_es_lookup:
  "fst (getLocalizedEntry skillsStore (astroWith ''es'' ''dd/MM/yyyy'') Skills ''typescript'')
     = Inr \<lparr>collection = Skills, slug = ''typescript-es'', body = ''TypeScript (es)''\<rparr>"
  by (simp add: getLocalizedEntry_def getGlobalContext_def astroWith_def getEntry_def skillsStore_def Let_def)

theorem getLocalizedEntry_slug_prefix_witness:
  "fst (getLocalizedEntry skillsStore (astroWith ''es'' ''dd/MM/yyyy'') Skills ''typescript'')
     = Inr \<lparr>collection = Skills, slug = ''typescript-es'', body = ''TypeScript (es)''\<rparr> \<and>
   prefix ''typescript'' (slug \<lparr>collection = Skills, slug = ''typescript-es'', body = ''TypeScript (es)''\<rparr>) \<and>
   \<lparr>collection = Skills, slug = ''typescript-es'', body = ''TypeScript (es)''\<rparr> \<in> set skillsStore"
  using getLocalizedEntry_slug_prefix [OF skills_es_lookup] skills_es_lookup by blast

text \<open>
  C8. Each of the six exported operations equals \<open>getLocalizedEntry\<close> at its collection, for
  every store, render handle and identifier, in the result and in the lookups made; the six
  collections are named skills, jobs, achievements, education, favorites and interests.
\<close>

theorem named_operations_are_getLocalizedEntry:
  "getLocalizedSkill store astro ident = getLocalizedEntry store astro Skills ident \<and>
   getLocalizedJob store astro ident = getLocalizedEntry store astro Jobs ident \<and>
   getLocalizedAchievement store astro ident = getLocalizedEntry store astro Achievements ident \<and>
   getLocalizedEducation store astro ident = getLocalizedEntry store astro Education ident \<and>
   getLocalizedFavorite store astro ident = getLocalizedEntry store astro Favorites ident \<and>
   getLocalizedInterest store astro ident = getLocalizedEntry store astro Interests ident \<and>
   map collection_name [Skills, Jobs, Achievements, Education, Favorites, Interests]
     = [''skills'', ''jobs'', ''achievements'', ''education'', ''favorites'', ''interests'']"
  by (simp add: getLocalizedSkill_def getLocalizedJob_def getLocalizedAchievement_def
                getLocalizedEducation_def getLocalizedFavorite_def getLocalizedInterest_def)

text \<open>
  C9. Under a locale code other than \<open>es\<close>, \<open>getLocalizedEntry\<close> makes one lookup, of the
  slug \<open>id\<close>, and none of \<open>id-es\<close>. It returns an entry exactly when the store answers the
  slug \<open>id\<close> with it, so never one stored under \<open>id-es\<close> only, and it throws the
  content-not-found error when the store has nothing under \<open>id\<close>, whatever it has under
  \<open>id-es\<close>.
\<close>

theorem getLocalizedEntry_other_locale:
  "globalContext astro = Some context \<Longrightarrow> code (locale' context) \<noteq> ''es'' \<Longrightarrow>
   snd (getLocalizedEntry store astro c ident) = [(c, ident)] \<and>
   (c, ident @ ''-es'') \<notin> set (snd (getLocalizedEntry store astro c ident)) \<and>
   (\<forall>e. fst (getLocalizedEntry store astro c ident) = Inr e \<longleftrightarrow> getEntry store c ident = Some e) \<and>
   (\<forall>e. fst (getLocalizedEntry store astro c ident) = Inr e \<longrightarrow> slug e = ident) \<and>
   (getEntry store c ident = None \<longrightarrow>
      fst (getLocalizedEntry store astro c ident) =
        Inl (Error (''Content entry not found: collection='' @ [CHR 0x22] @ collection_name c @ [CHR 0x22]
                     @ '', id='' @ [CHR 0x22] @ ident @ [CHR 0x22]
                     @ '', locale='' @ [CHR 0x22] @ code (locale' context) @ [CHR 0x22])))"
  by (auto simp: getLocalizedEntry_def fallbackToBase_def getGlobalContext_Some dquote_def
           split: option.splits dest: getEntry_Some)

theorem getLocalizedEntry_other_locale_witness:
  "snd (getLocalizedEntry orphanStore (astroWith ''en-US'' ''dd/MM/yyyy'') Skills ''typescript'')
     = [(Skills, ''typescript'')] \<and>
   fst (getLocalizedEntry orphanStore (astroWith ''en-US'' ''dd/MM/yyyy'') Skills ''typescript'') =
     Inl (Error (''Content entry not found: collection='' @ [CHR 0x22] @ ''skills'' @ [CHR 0x22]
                  @ '', id='' @ [CHR 0x22] @ ''typescript'' @ [CHR 0x22]
                  @ '', locale='' @ [CHR 0x22] @ ''en-US'' @ [CHR 0x22])) \<and>
   getEntry orphanStore Skills (''typescript'' @ ''-es'')
     = Some \<lparr>collection = Skills, slug = ''typescript-es'', body = ''TypeScript (es)''\<rparr>"
proof -
  have en: "code (locale' \<lparr>locale' = \<lparr>code = ''en-US''\<rparr>, dateFormat = ''dd/MM/yyyy''\<rparr>) \<noteq> ''es''"
    by simp
  from getLocalizedEntry_other_locale [OF astroWith_context en, of orphanStore Skills "''typescript''"]
       orphanStore_base orphanStore_es
  show ?thesis by simp
qed

section \<open>Calendar arithmetic\<close>

lemma div_lower: "0 < k \<Longrightarrow> k * (a div k) \<le> (a::int)"
  using mult_div_mod_eq [of k a] pos_mod_sign [of k a] by linarith

lemma div_upper: "0 < k \<Longrightarrow> (a::int) < k * (a div k) + k"
  using mult_div_mod_eq [of k a] pos_mod_bound [of k a] by linarith

text \<open>The first day of a year lies within a day and a half of the mean-year estimate.\<close>

lemma DayFromYear_lower: "146097 * (y - 1970) - 506 \<le> 400 * DayFromYear y"
proof -
  define a where "a = (y - 1969) div 4"
  define b where "b = (y - 1901) div 100"
  define c where "c = (y - 1601) div 400"
  have "y - 1969 < 4 * a + 4" "100 * b \<le> y - 1901" "y - 1601 < 400 * c + 400"
    unfolding a_def b_def c_def by (simp_all add: div_lower div_upper)
  moreover have "DayFromYear y = 365 * (y - 1970) + a - b + c"
    by (simp add: DayFromYear_def a_def b_def c_def)
  ultimately show ?thesis by (simp add: algebra_simps)
qed

lemma DayFromYear_upper: "400 * DayFromYear y \<le> 146097 * (y - 1970) + 589"
proof -
  define a where "a = (y - 1969) div 4"
  define b where "b = (y - 1901) div 100"
  define c where "c = (y - 1601) div 400"
  have "4 * a \<le> y - 1969" "y - 1901 < 100 * b + 100" "400 * c \<le> y - 1601"
    unfolding a_def b_def c_def by (simp_all add: div_lower div_upper)
  moreover have "DayFromYear y = 365 * (y - 1970) + a - b + c"
    by (simp add: DayFromYear_def a_def b_def c_def)
  ultimately show ?thesis by (simp add: algebra_simps)
qed

lemma DayFromYear_strict_mono: "y < y' \<Longrightarrow> DayFromYear y < DayFromYear y'"
  using DayFromYear_upper [of y] DayFromYear_lower [of y'] by (simp add: algebra_simps)

text \<open>
  \<open>YearFromTime\<close> meets its ECMAScript characterisation: the year of \<open>t\<close> begins on or
  before the day of \<open>t\<close>, and the next year begins after it.
\<close>

lemma YearFromTime_bounds:
  "DayFromYear (YearFromTime t) \<le> Day t \<and> Day t < DayFromYear (YearFromTime t + 1)"
proof -
  define d where "d = Day t"
  define q where "q = (400 * d) div 146097"
  define e where "e = 1970 + q"
  have "146097 * q \<le> 400 * d" "400 * d < 146097 * q + 146097"
    unfolding q_def by (simp_all add: div_lower div_upper)
  then have e1: "146097 * (e - 1970) \<le> 400 * d" and e2: "400 * d < 146097 * (e - 1970) + 146097"
    unfolding e_def by (simp_all add: algebra_simps)
  have lo: "DayFromYear (e - 1) \<le> d"
    using DayFromYear_upper [of "e - 1"] e1 by (simp add: algebra_simps)
  have hi: "d < DayFromYear (e + 2)"
    using DayFromYear_lower [of "e + 2"] e2 by (simp add: algebra_simps)
  have Y: "YearFromTime t = (if d < DayFromYear e then e - 1 else if DayFromYear (e + 1) \<le> d then e + 1 else e)"
    by (simp add: YearFromTime_def Let_def d_def e_def q_def)
  show ?thesis
    unfolding Y d_def [symmetric] using lo hi by (auto simp: add.commute)
qed

lemma YearFromTime_ge: "DayFromYear y \<le> Day t \<Longrightarrow> y \<le> YearFromTime t"
proof (rule ccontr)
  assume a: "DayFromYear y \<le> Day t" and "\<not> y \<le> YearFromTime t"
  then have "YearFromTime t + 1 \<le> y" by simp
  then have "DayFromYear (YearFromTime t + 1) \<le> DayFromYear y"
    using DayFromYear_strict_mono [of "YearFromTime t + 1" y] by (cases "YearFromTime t + 1 = y") auto
  with a YearFromTime_bounds [of t] show False by simp
qed

lemma InLeapYear_range: "InLeapYear t = 0 \<or> InLeapYear t = 1"
  by (simp add: InLeapYear_def)

lemma DayWithinYear_nonneg: "0 \<le> DayWithinYear t"
  using YearFromTime_bounds [of t] by (simp add: DayWithinYear_def)

lemma MonthFromTime_range: "0 \<le> MonthFromTime t \<and> MonthFromTime t \<le> 11"
  by (simp add: MonthFromTime_def Let_def)

lemma DaysBeforeMonth_nonneg: "0 \<le> l \<Longrightarrow> 0 \<le> DaysBeforeMonth m l"
  by (simp add: DaysBeforeMonth_def)

lemma DateFromTime_ge1: "1 \<le> DateFromTime t"
  using DayWithinYear_nonneg [of t] InLeapYear_range [of t]
  by (auto simp: DateFromTime_def MonthFromTime_def DaysBeforeMonth_def Let_def)

text \<open>The year, month and date of a time value make its day again.\<close>

lemma MakeDay_fields: "MakeDay (YearFromTime t) (MonthFromTime t) (DateFromTime t) = Day t"
proof -
  have "MonthFromTime t div 12 = 0" "MonthFromTime t mod 12 = MonthFromTime t"
    using MonthFromTime_range [of t] by simp_all
  then show ?thesis
    by (simp add: MakeDay_def Let_def DateFromTime_def DayWithinYear_def InLeapYear_def)
qed

lemma MakeDay_lower:
  assumes "0 \<le> m" "m \<le> 11" "1 \<le> dt"
  shows "DayFromYear y \<le> MakeDay y m dt"
proof -
  have "m div 12 = 0" "m mod 12 = m" using assms by simp_all
  moreover have "0 \<le> DaysBeforeMonth m (if DaysInYear y = 366 then 1 else 0)"
    by (rule DaysBeforeMonth_nonneg) simp
  ultimately show ?thesis using assms by (simp add: MakeDay_def Let_def)
qed

lemma Day_of_days: "Day (d * msPerDay) = d"
  by (simp add: Day_def msPerDay_def)

text \<open>A time value whose hour, minute, second and millisecond are zero is a whole day.\<close>

lemma midnight_fields:
  assumes "HourFromTime t = 0" "MinFromTime t = 0" "SecFromTime t = 0" "msFromTime t = 0"
  shows "t = Day t * msPerDay"
proof -
  have s: "t = (t div 1000) * 1000"
    using assms(4) by (simp add: msFromTime_def msPerSecond_def mod_eq_0_iff_dvd)
  have "t div 60000 = (t div 1000) div 60"
    using zdiv_zmult2_eq [of 60 t 1000] by simp
  moreover have "(t div 1000) mod 60 = 0"
    using assms(3) by (simp add: SecFromTime_def msPerSecond_def)
  ultimately have m: "t div 1000 = (t div 60000) * 60"
    by (simp add: mod_eq_0_iff_dvd)
  have "t div 3600000 = (t div 60000) div 60"
    using zdiv_zmult2_eq [of 60 t 60000] by simp
  moreover have "(t div 60000) mod 60 = 0"
    using assms(2) by (simp add: MinFromTime_def msPerMinute_def)
  ultimately have h: "t div 60000 = (t div 3600000) * 60"
    by (simp add: mod_eq_0_iff_dvd)
  have "t div 86400000 = (t div 3600000) div 24"
    using zdiv_zmult2_eq [of 24 t 3600000] by simp
  moreover have "(t div 3600000) mod 24 = 0"
    using assms(1) by (simp add: HourFromTime_def msPerHour_def)
  ultimately have d: "t div 3600000 = (t div 86400000) * 24"
    by (simp add: mod_eq_0_iff_dvd)
  have "t = (t div 86400000) * 86400000"
    using s m h d by linarith
  then show ?thesis by (simp add: Day_def msPerDay_def)
qed

lemma TimeClip_Num: "TimeClip x = Num n \<Longrightarrow> x = n \<and> TimeClip n = Num n"
  by (auto simp: TimeClip_def split: if_splits)

lemma MakeFullYear_id: "y < 0 \<or> 99 < y \<Longrightarrow> MakeFullYear y = y"
  by (auto simp: MakeFullYear_def)

text \<open>The year of a day rebuilt by the constructor is never one the constructor remaps.\<close>

lemma reanchor_year:
  "YearFromTime (MakeDay (MakeFullYear (YearFromTime t)) (MonthFromTime t) (DateFromTime t) * msPerDay) < 0 \<or>
   99 < YearFromTime (MakeDay (MakeFullYear (YearFromTime t)) (MonthFromTime t) (DateFromTime t) * msPerDay)"
proof (cases "0 \<le> YearFromTime t \<and> YearFromTime t \<le> 99")
  case True
  let ?D = "MakeDay (1900 + YearFromTime t) (MonthFromTime t) (DateFromTime t)"
  have "DayFromYear (1900 + YearFromTime t) \<le> ?D"
    using MonthFromTime_range [of t] DateFromTime_ge1 [of t] by (simp add: MakeDay_lower)
  then have "1900 + YearFromTime t \<le> YearFromTime (?D * msPerDay)"
    by (simp add: YearFromTime_ge Day_of_days)
  with True show ?thesis by (simp add: MakeFullYear_def)
next
  case False
  then have "MakeFullYear (YearFromTime t) = YearFromTime t"
    by (simp add: MakeFullYear_def)
  moreover have "YearFromTime (Day t * msPerDay) = YearFromTime t"
    by (simp add: YearFromTime_def Day_of_days)
  ultimately show ?thesis using False by (auto simp: MakeDay_fields)
qed

lemma reanchor_stable:
  assumes "YearFromTime (d * msPerDay) < 0 \<or> 99 < YearFromTime (d * msPerDay)"
  shows "MakeDay (MakeFullYear (YearFromTime (d * msPerDay))) (MonthFromTime (d * msPerDay))
                 (DateFromTime (d * msPerDay)) = d"
  using assms MakeDay_fields [of "d * msPerDay"] by (simp add: MakeFullYear_id Day_of_days)

lemma offset_zero:
  assumes "\<bar>off\<bar> < msPerDay" "d * msPerDay - off = k * msPerDay"
  shows "off = 0"
proof -
  have "off = (d - k) * msPerDay" using assms(2) by (simp add: algebra_simps)
  with assms(1) show ?thesis by (cases "d - k = 0") (auto simp: msPerDay_def abs_mult)
qed

lemmas calendar_defs =
  YearFromTime_def MonthFromTime_def DateFromTime_def DayWithinYear_def InLeapYear_def DaysInYear_def
  DayFromYear_def DaysBeforeMonth_def Day_def msPerDay_def Let_def

lemmas clock_defs =
  HourFromTime_def MinFromTime_def SecFromTime_def msFromTime_def
  msPerHour_def msPerMinute_def msPerSecond_def

section \<open>Properties of the date formatter\<close>

subsection \<open>The normalization step\<close>

lemma isMidnightUtc_iff:
  "isMidnightUtc h date \<longleftrightarrow>
     (\<exists>t. DateValue h date = Num t \<and> HourFromTime t = 0 \<and> MinFromTime t = 0 \<and>
          SecFromTime t = 0 \<and> msFromTime t = 0)"
  by (cases "DateValue h date")
     (auto simp: isMidnightUtc_def strictEq_def getUTCHours_def getUTCMinutes_def
                 getUTCSeconds_def getUTCMilliseconds_def)

lemma normalize_passthrough:
  "\<not> isMidnightUtc h date \<Longrightarrow> normalizeDateOnlyToLocal tza h date = (date, h)"
  by (simp add: normalizeDateOnlyToLocal_def)

lemma normalize_midnight:
  assumes "isMidnightUtc h date" "DateValue h date = Num t"
  shows "normalizeDateOnlyToLocal tza h date =
           newDate h (TimeClip (UTC tza (MakeDay (MakeFullYear (YearFromTime t)) (MonthFromTime t)
                                           (DateFromTime t) * msPerDay)))"
  using assms
  by (simp add: normalizeDateOnlyToLocal_def DateFromFields_def getUTCFullYear_def getUTCMonth_def
                getUTCDate_def MakeDate_def MakeTime_def)

lemma normalize_frame:
  "normalizeDateOnlyToLocal tza h date = (r, h') \<Longrightarrow>
     nextRef h \<le> nextRef h' \<and> (\<forall>x. x < nextRef h \<longrightarrow> DateValue h' x = DateValue h x)"
  by (auto simp: normalizeDateOnlyToLocal_def newDate_def split: if_splits)

lemma normalize_value_only:
  assumes "DateValue h1 d1 = DateValue h2 d2"
  shows "DateValue (snd (normalizeDateOnlyToLocal tza h1 d1)) (fst (normalizeDateOnlyToLocal tza h1 d1))
       = DateValue (snd (normalizeDateOnlyToLocal tza h2 d2)) (fst (normalizeDateOnlyToLocal tza h2 d2))"
proof -
  have m: "isMidnightUtc h1 d1 = isMidnightUtc h2 d2"
    using assms by (simp add: isMidnightUtc_iff)
  show ?thesis
    using assms m
    by (simp add: normalizeDateOnlyToLocal_def newDate_def getUTCFullYear_def getUTCMonth_def getUTCDate_def)
qed

lemma formatDate_unfold:
  "formatDate tza fmt h date astro =
     (case getGlobalContext astro of
        Inl err \<Rightarrow> (Inl err, h)
      | Inr context \<Rightarrow>
          (fmt tza (DateValue (snd (normalizeDateOnlyToLocal tza h date))
                              (fst (normalizeDateOnlyToLocal tza h date)))
               (dateFormat context) (locale' context),
           snd (normalizeDateOnlyToLocal tza h date)))"
  by (simp add: formatDate_def split: prod.splits sum.splits)

text \<open>
  In a zone of fixed offset, a date at UTC midnight whose UTC year is not one of 0 to 99, and
  whose local midnight is a time value in range, is replaced by the date that reads, in
  local time, what the given date reads in UTC.
\<close>

lemma normalizeDateOnlyToLocal_reanchors:
  assumes mid: "isMidnightUtc h date" and t: "DateValue h date = Num t"
    and yr: "YearFromTime t < 0 \<or> 99 < YearFromTime t"
    and rng: "\<bar>t - off\<bar> \<le> 8640000000000000"
  shows "DateValue (snd (normalizeDateOnlyToLocal (fixedOffset off) h date))
                   (fst (normalizeDateOnlyToLocal (fixedOffset off) h date)) = Num (t - off) \<and>
         LocalTime (fixedOffset off) (t - off) = t"
proof -
  have "t = Day t * msPerDay"
    using mid t by (auto simp: isMidnightUtc_iff dest: midnight_fields)
  then have "MakeDay (MakeFullYear (YearFromTime t)) (MonthFromTime t) (DateFromTime t) * msPerDay = t"
    using yr by (simp add: MakeFullYear_id MakeDay_fields)
  then have "normalizeDateOnlyToLocal (fixedOffset off) h date = newDate h (TimeClip (t - off))"
    using normalize_midnight [OF mid t, of "fixedOffset off"] by (simp add: UTC_def fixedOffset_def)
  then show ?thesis
    using rng by (simp add: newDate_def TimeClip_def LocalTime_def fixedOffset_def)
qed

subsection \<open>The scenario of 15 March 2024\<close>

lemma tokens_dd_MM_yyyy:
  "tokens ''dd/MM/yyyy'' = [(CHR ''d'', 2), (CHR ''/'', 1), (CHR ''M'', 2), (CHR ''/'', 1), (CHR ''y'', 4)]"
  by (simp add: isLatinLetter_def)

lemma decimal_values: "decimal 3 = ''3''" "decimal 15 = ''15''" "decimal 2024 = ''2024''"
  by (simp_all add: digitChar_def)

lemma fields_20240315:
  "YearFromTime 1710460800000 = 2024" "MonthFromTime 1710460800000 = 2" "DateFromTime 1710460800000 = 15"
  by (simp_all add: calendar_defs)

lemma format_20240315:
  "formatTokens 1710460800000 (tokens ''dd/MM/yyyy'') = Inr ''15/03/2024''"
  by (simp add: tokens_dd_MM_yyyy formatToken_def addLeadingZeros_def fields_20240315 decimal_values
                isLatinLetter_def
           del: decimal.simps tokens.simps)

lemma midnight_20240315: "isMidnightUtc (heapOf (Num 1710460800000)) 0"
  by (simp add: isMidnightUtc_iff heapOf_def clock_defs)

text \<open>
  The date of \<open>Date.UTC(2024, 2, 15)\<close>, under the pattern \<open>dd/MM/yyyy\<close>, is formatted as
  15/03/2024 in every zone of fixed offset.
\<close>

lemma formatDate_scenario:
  assumes "\<bar>off\<bar> < msPerDay"
  shows "fst (formatDate (fixedOffset off) formatNumeric (heapOf (Num 1710460800000)) 0
                (astroWith ''es'' ''dd/MM/yyyy'')) = Inr ''15/03/2024''"
proof -
  have "\<bar>1710460800000 - off\<bar> \<le> 8640000000000000"
    using assms by (simp add: msPerDay_def)
  from normalizeDateOnlyToLocal_reanchors [OF midnight_20240315 _ _ this]
  have "DateValue (snd (normalizeDateOnlyToLocal (fixedOffset off) (heapOf (Num 1710460800000)) 0))
                  (fst (normalizeDateOnlyToLocal (fixedOffset off) (heapOf (Num 1710460800000)) 0))
          = Num (1710460800000 - off)"
    and "LocalTime (fixedOffset off) (1710460800000 - off) = 1710460800000"
    by (simp_all add: heapOf_def fields_20240315)
  then show ?thesis
    by (simp add: formatDate_unfold getGlobalContext_def astroWith_def formatNumeric_def format_20240315
             del: tokens.simps)
qed

text \<open>
  At the upper end of the range of time values, west of Greenwich, the local midnight of the
  day is not a time value: the date made is invalid, and the formatter throws.
\<close>

lemma formatDate_range_end:
  "isMidnightUtc (heapOf (Num 8640000000000000)) 0 \<and>
   fst (formatDate (fixedOffset (- 18000000)) formatNumeric (heapOf (Num 8640000000000000)) 0
          (astroWith ''es'' ''dd/MM/yyyy'')) = Inl (RangeError ''Invalid time value'')"
  by code_simp

text \<open>
  C4. The claim is that \<open>formatDate\<close> re-anchors every date at UTC midnight to the local
  calendar day of its UTC year, month and date. It does so for the date of the scenario
  (lemma \<open>formatDate_scenario\<close>) and for every year outside 0 to 99 (lemma
  \<open>normalizeDateOnlyToLocal_reanchors\<close>). The date 0050-01-01T00:00:00.000Z is at UTC
  midnight, its UTC fields are year 50, month 0, date 1, which the pattern \<open>dd/MM/yyyy\<close>
  renders as 01/01/0050, and \<open>formatDate\<close> renders the date as 01/01/1950: the constructor
  \<open>new Date(year, month, date)\<close> reads a year from 0 to 99 as 1900 plus it.
\<close>

theorem formatDate_year_below_100:
  "isMidnightUtc (heapOf (Num (- 60589296000000))) 0 \<and>
   getUTCFullYear (heapOf (Num (- 60589296000000))) 0 = Num 50 \<and>
   getUTCMonth (heapOf (Num (- 60589296000000))) 0 = Num 0 \<and>
   getUTCDate (heapOf (Num (- 60589296000000))) 0 = Num 1 \<and>
   formatNumeric (fixedOffset 0) (Num (- 60589296000000)) ''dd/MM/yyyy'' \<lparr>code = ''es''\<rparr>
     = Inr ''01/01/0050'' \<and>
   fst (formatDate (fixedOffset 0) formatNumeric (heapOf (Num (- 60589296000000))) 0
          (astroWith ''es'' ''dd/MM/yyyy'')) = Inr ''01/01/1950'' \<and>
   fst (formatDate (fixedOffset (- 18000000)) formatNumeric (heapOf (Num (- 60589296000000))) 0
          (astroWith ''es'' ''dd/MM/yyyy'')) = Inr ''01/01/1950''"
  by code_simp

subsection \<open>Passthrough, frame and idempotence\<close>

text \<open>
  C5. When one of the UTC hours, minutes, seconds and milliseconds of the date is not zero,
  \<open>normalizeDateOnlyToLocal\<close> returns the date it was given, the same object in the same
  heap, and \<open>formatDate\<close> hands the formatter the time value of that date, the original
  instant, with the pattern and the locale of the context.
\<close>

theorem normalizeDateOnlyToLocal_passthrough:
  "\<not> strictEq (getUTCHours h date) (Num 0) \<or> \<not> strictEq (getUTCMinutes h date) (Num 0) \<or>
   \<not> strictEq (getUTCSeconds h date) (Num 0) \<or> \<not> strictEq (getUTCMilliseconds h date) (Num 0) \<Longrightarrow>
   normalizeDateOnlyToLocal tza h date = (date, h) \<and>
   (globalContext astro = Some context \<longrightarrow>
      formatDate tza fmt h date astro = (fmt tza (DateValue h date) (dateFormat context) (locale' context), h))"
  by (auto simp: normalizeDateOnlyToLocal_def isMidnightUtc_def formatDate_def getGlobalContext_def)

lemma instant_nonzero:
  "\<not> strictEq (getUTCHours (heapOf (Num 1710469800000)) 0) (Num 0) \<or>
   \<not> strictEq (getUTCMinutes (heapOf (Num 1710469800000)) 0) (Num 0) \<or>
   \<not> strictEq (getUTCSeconds (heapOf (Num 1710469800000)) 0) (Num 0) \<or>
   \<not> strictEq (getUTCMilliseconds (heapOf (Num 1710469800000)) 0) (Num 0)"
  by (simp add: heapOf_def strictEq_def getUTCHours_def clock_defs)

lemma format_instant:
  "formatNumeric (fixedOffset (- 18000000)) (Num 1710469800000) ''dd/MM/yyyy'' \<lparr>code = ''es''\<rparr>
     = Inr ''14/03/2024''"
  by code_simp

text \<open>
  The instant 2024-03-15T02:30:00Z, five hours west of Greenwich: it is passed through, and
  formatted as the evening of 14 March that it is there.
\<close>

theorem normalizeDateOnlyToLocal_passthrough_witness:
  "normalizeDateOnlyToLocal (fixedOffset (- 18000000)) (heapOf (Num 1710469800000)) 0
     = (0, heapOf (Num 1710469800000)) \<and>
   formatDate (fixedOffset (- 18000000)) formatNumeric (heapOf (Num 1710469800000)) 0
       (astroWith ''es'' ''dd/MM/yyyy'')
     = (Inr ''14/03/2024'', heapOf (Num 1710469800000))"
proof -
  have v: "DateValue (heapOf (Num 1710469800000)) 0 = Num 1710469800000"
    by (simp add: heapOf_def)
  from normalizeDateOnlyToLocal_passthrough [OF instant_nonzero,
         of "fixedOffset (- 18000000)" "astroWith ''es'' ''dd/MM/yyyy''"
            "\<lparr>locale' = \<lparr>code = ''es''\<rparr>, dateFormat = ''dd/MM/yyyy''\<rparr>" formatNumeric]
  show ?thesis
    by (simp add: astroWith_context v format_instant)
qed

text \<open>
  C7. \<open>formatDate\<close> leaves every Date object that exists when it is called as it was, the
  given date among them; all it does to the heap is allocate. Its result is a function of
  the time value of the given date, for a fixed context, zone and formatter: two dates with
  the same time value, in any two heaps, give the same result, and so does a second call on
  the same date after the first.
\<close>

theorem formatDate_frame:
  "(\<forall>r. r < nextRef h \<longrightarrow> DateValue (snd (formatDate tza fmt h date astro)) r = DateValue h r) \<and>
   nextRef h \<le> nextRef (snd (formatDate tza fmt h date astro)) \<and>
   (DateValue h1 d1 = DateValue h2 d2 \<longrightarrow>
      fst (formatDate tza fmt h1 d1 astro) = fst (formatDate tza fmt h2 d2 astro)) \<and>
   (date < nextRef h \<longrightarrow>
      fst (formatDate tza fmt (snd (formatDate tza fmt h date astro)) date astro)
        = fst (formatDate tza fmt h date astro))"
proof -
  obtain r h' where n: "normalizeDateOnlyToLocal tza h date = (r, h')"
    by (cases "normalizeDateOnlyToLocal tza h date")
  have snd_eq: "snd (formatDate tza fmt h date astro) = h' \<or> snd (formatDate tza fmt h date astro) = h"
    by (simp add: formatDate_def n split: sum.splits)
  have frame: "\<forall>x. x < nextRef h \<longrightarrow> DateValue h' x = DateValue h x" and mono: "nextRef h \<le> nextRef h'"
    using normalize_frame [OF n] by simp_all
  have pure: "fst (formatDate tza fmt ha da astro) = fst (formatDate tza fmt hb db astro)"
    if "DateValue ha da = DateValue hb db" for ha da hb db
    using normalize_value_only [OF that, of tza]
    by (simp add: formatDate_unfold split: sum.splits)
  have a: "\<forall>r. r < nextRef h \<longrightarrow> DateValue (snd (formatDate tza fmt h date astro)) r = DateValue h r"
    using snd_eq frame by auto
  have b: "nextRef h \<le> nextRef (snd (formatDate tza fmt h date astro))"
    using snd_eq mono by auto
  have c: "DateValue h1 d1 = DateValue h2 d2 \<longrightarrow>
      fst (formatDate tza fmt h1 d1 astro) = fst (formatDate tza fmt h2 d2 astro)"
    using pure by blast
  have d: "date < nextRef h \<longrightarrow>
      fst (formatDate tza fmt (snd (formatDate tza fmt h date astro)) date astro)
        = fst (formatDate tza fmt h date astro)"
    using a pure by blast
  from a b c d show ?thesis by blast
qed

theorem formatDate_frame_witness:
  "DateValue (snd (formatDate (fixedOffset (- 18000000)) formatNumeric (heapOf (Num 1710460800000)) 0
                     (astroWith ''es'' ''dd/MM/yyyy''))) 0 = Num 1710460800000 \<and>
   fst (formatDate (fixedOffset (- 18000000)) formatNumeric
          (snd (formatDate (fixedOffset (- 18000000)) formatNumeric (heapOf (Num 1710460800000)) 0
                  (astroWith ''es'' ''dd/MM/yyyy''))) 0 (astroWith ''es'' ''dd/MM/yyyy''))
     = fst (formatDate (fixedOffset (- 18000000)) formatNumeric (heapOf (Num 1710460800000)) 0
              (astroWith ''es'' ''dd/MM/yyyy''))"
proof -
  have live: "(0::nat) < nextRef (heapOf (Num 1710460800000))"
    and v: "DateValue (heapOf (Num 1710460800000)) 0 = Num 1710460800000"
    by (simp_all add: heapOf_def)
  from formatDate_frame [of "heapOf (Num 1710460800000)" "fixedOffset (- 18000000)" formatNumeric 0
                            "astroWith ''es'' ''dd/MM/yyyy''"] live v
  show ?thesis by simp
qed

text \<open>
  C10. In a zone of fixed offset, of less than a day as every zone's is, normalizing the
  date that the normalization returned gives a date of the same time value, for every date,
  the invalid one included; so the formatter is handed the same time value after two
  normalizations as after one, and returns the same.
\<close>

theorem normalizeDateOnlyToLocal_idempotent:
  assumes off: "\<bar>off\<bar> < msPerDay"
  shows "(let (r1, h1) = normalizeDateOnlyToLocal (fixedOffset off) h date;
              (r2, h2) = normalizeDateOnlyToLocal (fixedOffset off) h1 r1
          in DateValue h2 r2 = DateValue h1 r1 \<and>
             fmt (fixedOffset off) (DateValue h2 r2) pat loc = fmt (fixedOffset off) (DateValue h1 r1) pat loc)"
proof -
  let ?tza = "fixedOffset off"
  obtain r1 h1 where n1: "normalizeDateOnlyToLocal ?tza h date = (r1, h1)"
    by (cases "normalizeDateOnlyToLocal ?tza h date")
  obtain r2 h2 where n2: "normalizeDateOnlyToLocal ?tza h1 r1 = (r2, h2)"
    by (cases "normalizeDateOnlyToLocal ?tza h1 r1")
  have "DateValue h2 r2 = DateValue h1 r1"
  proof (cases "isMidnightUtc h1 r1")
    case False
    then show ?thesis using n2 by (simp add: normalize_passthrough)
  next
    case mid1: True
    then obtain n where n: "DateValue h1 r1 = Num n" and nf: "n = Day n * msPerDay"
      by (auto simp: isMidnightUtc_iff dest: midnight_fields)
    show ?thesis
    proof (cases "isMidnightUtc h date")
      case False
      then have "r1 = date" "h1 = h" using n1 by (simp_all add: normalize_passthrough)
      with False mid1 show ?thesis by simp
    next
      case mid: True
      then obtain t where t: "DateValue h date = Num t"
        by (auto simp: isMidnightUtc_iff)
      let ?D = "MakeDay (MakeFullYear (YearFromTime t)) (MonthFromTime t) (DateFromTime t)"
      have "DateValue h1 r1 = TimeClip (UTC ?tza (?D * msPerDay))"
        using n1 normalize_midnight [OF mid t, of ?tza] by (auto simp: newDate_def)
      then have clip: "TimeClip (?D * msPerDay - off) = Num n"
        using n by (simp add: UTC_def fixedOffset_def)
      then have eq: "?D * msPerDay - off = n" and ok: "TimeClip n = Num n"
        using TimeClip_Num by blast+
      have "?D * msPerDay - off = Day n * msPerDay" using eq nf by simp
      with off have z: "off = 0" by (rule offset_zero)
      then have nD: "n = ?D * msPerDay" using eq by simp
      have yr: "YearFromTime n < 0 \<or> 99 < YearFromTime n"
        unfolding nD by (rule reanchor_year)
      have "MakeDay (MakeFullYear (YearFromTime n)) (MonthFromTime n) (DateFromTime n) = ?D"
        using yr unfolding nD by (rule reanchor_stable)
      then have "normalizeDateOnlyToLocal ?tza h1 r1 = newDate h1 (TimeClip (UTC ?tza n))"
        using normalize_midnight [OF mid1 n, of ?tza] nD by simp
      then have "DateValue h2 r2 = TimeClip n"
        using n2 z by (auto simp: newDate_def UTC_def fixedOffset_def)
      then show ?thesis using ok n by simp
    qed
  qed
  then show ?thesis by (simp add: n1 n2)
qed

theorem normalizeDateOnlyToLocal_idempotent_witness:
  "(let (r1, h1) = normalizeDateOnlyToLocal (fixedOffset (- 18000000)) (heapOf (Num 1710460800000)) 0;
        (r2, h2) = normalizeDateOnlyToLocal (fixedOffset (- 18000000)) h1 r1
    in DateValue h2 r2 = DateValue h1 r1 \<and>
       formatNumeric (fixedOffset (- 18000000)) (DateValue h2 r2) ''dd/MM/yyyy'' \<lparr>code = ''es''\<rparr>
         = formatNumeric (fixedOffset (- 18000000)) (DateValue h1 r1) ''dd/MM/yyyy'' \<lparr>code = ''es''\<rparr>)"
proof -
  have "\<bar>- 18000000\<bar> < msPerDay" by (simp add: msPerDay_def)
  from normalizeDateOnlyToLocal_idempotent [OF this] show ?thesis .
qed

end
